theory Spec2Isabelle
  imports Complex_Main
begin

section \<open>JavaScript values handled by the bookSearch component\<close>

text \<open>
  The component \<^verbatim>\<open>bookSearch.js\<close> reads the field \<^verbatim>\<open>Price__c\<close> of a catalog record,
  which is a JavaScript number or is absent. A JavaScript number is an IEEE-754 double:
  not-a-number, an infinity, or a finite value, which is a rational number. The sign of a
  zero plays no role in the code embedded here (both zeros are falsy), so one zero is kept.
\<close>

datatype jsnum = NaN | PosInfinity | NegInfinity | Fin rat

datatype jsval = Undefined | Null | Number jsnum

text \<open>\<^verbatim>\<open>if (price)\<close>: \<^verbatim>\<open>undefined\<close>, \<^verbatim>\<open>null\<close>, \<^verbatim>\<open>NaN\<close> and zero are falsy.\<close>

fun truthy :: "jsval \<Rightarrow> bool" where
  "truthy Undefined = False"
| "truthy Null = False"
| "truthy (Number NaN) = False"
| "truthy (Number PosInfinity) = True"
| "truthy (Number NegInfinity) = True"
| "truthy (Number (Fin x)) = (x \<noteq> 0)"

subsection \<open>Reading a decimal literal as a double\<close>

text \<open>
  A literal such as \<^verbatim>\<open>9.999\<close> denotes the double nearest to it (ties to the even
  significand). \<open>to_double\<close> is that rounding on an exact rational: 53 significant bits,
  exponents down to the subnormal range, overflow to an infinity.
\<close>

definition pow2 :: "int \<Rightarrow> rat" where
  "pow2 e = (if 0 \<le> e then 2 ^ nat e else 1 / 2 ^ nat (- e))"

definition round_half_even :: "rat \<Rightarrow> int" where
  "round_half_even q =
     (let f = \<lfloor>q\<rfloor>; r = q - of_int f
      in if r < 1 / 2 then f else if 1 / 2 < r then f + 1 else if even f then f else f + 1)"

text \<open>The number of binary digits of a natural number.\<close>

fun bitlen :: "nat \<Rightarrow> nat" where
  "bitlen n = (if n = 0 then 0 else Suc (bitlen (n div 2)))"

declare bitlen.simps [simp del]

text \<open>
  \<open>ilog2 q\<close> is the integer part of the binary logarithm of a positive rational: one
  less than the number of binary digits of its integer part from 1 on, and below 1 the
  negated number of binary digits of \<open>\<lceil>1 / q\<rceil> - 1\<close>.
\<close>

definition ilog2 :: "rat \<Rightarrow> int" where
  "ilog2 q =
     (if 1 \<le> q then int (bitlen (nat \<lfloor>q\<rfloor>)) - 1
      else - int (bitlen (nat (\<lceil>1 / q\<rceil> - 1))))"

definition to_double :: "rat \<Rightarrow> jsnum" where
  "to_double q =
     (if q = 0 then Fin 0
      else let a = \<bar>q\<bar>;
               e = max (ilog2 a - 52) (- 1074);
               v = of_int (round_half_even (a / pow2 e)) * pow2 e
           in if 2 ^ 1024 \<le> v then (if q < 0 then NegInfinity else PosInfinity)
              else Fin (if q < 0 then - v else v))"

subsection \<open>Printing numbers\<close>

definition digit_char :: "nat \<Rightarrow> char" where
  "digit_char d = ''0123456789'' ! d"

text \<open>The decimal digits of a non-negative integer, most significant first.\<close>

fun dec :: "nat \<Rightarrow> string" where
  "dec n = (if n < 10 then [digit_char n] else dec (n div 10) @ [digit_char (n mod 10)])"

declare dec.simps [simp del]

text \<open>
  \<^verbatim>\<open>Number::toString\<close> on a finite value of at least \<open>10^21\<close>, the only finite values
  on which \<^verbatim>\<open>toFixed\<close> falls back to it. The language definition asks for integers
  \<open>n\<close>, \<open>k\<close>, \<open>s\<close> with \<open>10^(k-1) \<le> s < 10^k\<close> such that \<open>s * 10^(n-k)\<close> reads back as
  the same double and \<open>k\<close> is as small as possible (the candidate nearest to the value
  wins, an even \<open>s\<close> on a tie), and prints \<open>s\<close> in exponent notation. A double needs at
  most 17 significant digits, which bounds the search.
\<close>

definition reads_back :: "rat \<Rightarrow> rat \<Rightarrow> bool" where
  "reads_back x v = (to_double v = Fin x)"

fun shortest :: "rat \<Rightarrow> nat \<Rightarrow> nat \<Rightarrow> nat \<Rightarrow> nat \<times> nat" where
  "shortest x N k 0 = (nat \<lfloor>x / 10 ^ (N - k) + 1 / 2\<rfloor>, k)"
| "shortest x N k (Suc fuel) =
     (let u = 10 ^ (N - k);
          s1 = nat \<lfloor>x / u\<rfloor>;
          s2 = s1 + 1;
          ok1 = reads_back x (of_nat s1 * u);
          ok2 = reads_back x (of_nat s2 * u);
          d1 = x - of_nat s1 * u;
          d2 = of_nat s2 * u - x
      in if ok1 \<and> ok2 then
           (if d1 < d2 then (s1, k) else if d2 < d1 then (s2, k)
            else if even s1 then (s1, k) else (s2, k))
         else if ok1 then (s1, k)
         else if ok2 then (s2, k)
         else shortest x N (Suc k) fuel)"

definition big_toString :: "rat \<Rightarrow> string" where
  "big_toString x =
     (let N = length (dec (nat \<lfloor>x\<rfloor>));
          (s, k) = shortest x N 1 17;
          ds = dec s;
          (digits, n) = (if length ds > k then (take k ds, N + 1) else (ds, N));
          e = ''e+'' @ dec (n - 1)
      in if k = 1 then digits @ e
         else take 1 digits @ ''.'' @ drop 1 digits @ e)"

text \<open>
  \<^verbatim>\<open>Number.prototype.toFixed(2)\<close>, the only call the component makes. A non-finite
  value prints by name. Otherwise the sign is split off; a magnitude of at least \<open>10^21\<close>
  prints in exponent notation; any other magnitude \<open>x\<close> prints the integer \<open>n\<close> for
  which \<open>n / 100 - x\<close> is nearest to zero (the larger \<open>n\<close> of two), padded with zeros
  to three digits, with a point before the last two.
\<close>

definition toFixed2 :: "jsnum \<Rightarrow> string" where
  "toFixed2 v =
     (case v of
        NaN \<Rightarrow> ''NaN''
      | PosInfinity \<Rightarrow> ''Infinity''
      | NegInfinity \<Rightarrow> ''-Infinity''
      | Fin r \<Rightarrow>
          (let s = (if r < 0 then ''-'' else '''');
               x = \<bar>r\<bar>
           in if 10 ^ 21 \<le> x then s @ big_toString x
              else let n = nat \<lfloor>x * 100 + 1 / 2\<rfloor>;
                       m = dec n;
                       k = length m;
                       m = (if k \<le> 2 then replicate (3 - k) CHR ''0'' @ m else m);
                       k = length m
                   in s @ take (k - 2) m @ ''.'' @ drop (k - 2) m))"

section \<open>formatPrice\<close>

text \<open>
  \<^verbatim>\<open>formatPrice(price) { if (price) { return `$${price.toFixed(2)}`; } return '$0.00'; }\<close>
\<close>

fun formatPrice :: "jsval \<Rightarrow> string" where
  "formatPrice price =
     (if truthy price
      then (case price of Number v \<Rightarrow> ''$'' @ toFixed2 v | _ \<Rightarrow> ''$0.00'')
      else ''$0.00'')"

declare formatPrice.simps [simp del]

text \<open>
  The shape the component promises for a displayed price: a dollar sign, an optional minus
  sign, at least one digit, a point, and exactly two digits.
\<close>

definition is_digit :: "char \<Rightarrow> bool" where
  "is_digit c = (c \<in> set ''0123456789'')"

definition two_fraction_digits :: "string \<Rightarrow> bool" where
  "two_fraction_digits s =
     (case s of
        [] \<Rightarrow> False
      | c # r \<Rightarrow>
          c = CHR ''$'' \<and>
          (let u = (if take 1 r = ''-'' then drop 1 r else r);
               ip = take (length u - 3) u;
               fp = drop (length u - 3) u
           in ip \<noteq> [] \<and> list_all is_digit ip \<and>
              length fp = 3 \<and> hd fp = CHR ''.'' \<and> list_all is_digit (tl fp)))"

text \<open>
  An amount in hundredths, rounded to the nearest one, a half away from zero: the
  magnitude that two fractional digits can show.
\<close>

definition cents :: "rat \<Rightarrow> nat" where
  "cents x = nat \<lfloor>\<bar>x\<bar> * 100 + 1 / 2\<rfloor>"

section \<open>The state of the component\<close>

text \<open>
  A catalog record as the Apex controller delivers it, and a book of the displayed list:
  the record spread into a new object with the two derived fields
  (\<^verbatim>\<open>{...book, isFavorite: ..., priceFormatted: ...}\<close>). The field \<^verbatim>\<open>Id\<close> is written
  \<open>Id'\<close>, since \<open>Id\<close> is the identity relation of HOL. The text fields are strings.
\<close>

record raw_book =
  Id' :: string
  Name :: string
  Price__c :: jsval
  Language__c :: string
  Genre__c :: string

record book = raw_book +
  isFavorite :: bool
  priceFormatted :: string

definition spread :: "raw_book \<Rightarrow> bool \<Rightarrow> string \<Rightarrow> book" where
  "spread b fav pf =
     \<lparr>Id' = Id' b, Name = Name b, Price__c = Price__c b, Language__c = Language__c b,
      Genre__c = Genre__c b, isFavorite = fav, priceFormatted = pf\<rparr>"

text \<open>\<^verbatim>\<open>new ShowToastEvent({title, message, variant})\<close>\<close>

datatype toast = ShowToastEvent string string string

text \<open>The value \<^verbatim>\<open>getSessionInfo\<close> resolves to.\<close>

record session_info =
  accessToken :: string
  sessionId :: string

text \<open>
  The argument of a call \<^verbatim>\<open>invokeAgent({accessToken, sessionId, Message})\<close>.
\<close>

datatype agent_call = InvokeAgent string string string

text \<open>The button a click came from (\<^verbatim>\<open>event.currentTarget\<close>).\<close>

record button =
  iconName :: string
  variant :: string

text \<open>How an awaited remote call ends: with a value, or rejected.\<close>

datatype 'a settled = Resolved 'a | Rejected

text \<open>
  The fields of the class \<^verbatim>\<open>BookSearch\<close>, followed by what the component does to its
  surroundings: the toast events it dispatched, the calls to \<^verbatim>\<open>getBooks\<close> (by search
  term) and to \<^verbatim>\<open>invokeAgent\<close> it issued, and the timeouts of the page that are still
  pending (handle and due time, in milliseconds), with the clock of the page.
  \<^verbatim>\<open>delayTimeout\<close> is the handle the component keeps; it is undefined until the first
  keystroke.
\<close>

record component =
  books :: "book list"
  searchTerm :: string
  isLoading :: bool
  favoriteBooks :: "string set"
  sessionInfo :: "session_info option"
  showRecommendations :: bool
  recommendations :: string
  selectedBookName :: string
  delayTimeout :: "nat option"
  toasts :: "toast list"
  searchCalls :: "string list"
  agentCalls :: "agent_call list"
  timers :: "(nat \<times> nat) list"
  nextHandle :: nat
  now :: nat

definition initial :: component where
  "initial =
     \<lparr>books = [], searchTerm = [], isLoading = False, favoriteBooks = {},
      sessionInfo = None, showRecommendations = False, recommendations = [],
      selectedBookName = [], delayTimeout = None, toasts = [], searchCalls = [],
      agentCalls = [], timers = [], nextHandle = 1, now = 0\<rparr>"

section \<open>The operations of the component\<close>

definition showToast :: "string \<Rightarrow> string \<Rightarrow> string \<Rightarrow> component \<Rightarrow> component" where
  "showToast t m v st = st\<lparr>toasts := toasts st @ [ShowToastEvent t m v]\<rparr>"

text \<open>
  \<^verbatim>\<open>wiredBooks({ error, data })\<close>: the wire service calls it with the list, with an
  error, or with neither.
\<close>

definition wiredBooks :: "string option \<Rightarrow> raw_book list option \<Rightarrow> component \<Rightarrow> component" where
  "wiredBooks error data st =
     (case data of
        Some d \<Rightarrow>
          st\<lparr>books := map (\<lambda>book. spread book False (formatPrice (Price__c book))) d\<rparr>
      | None \<Rightarrow>
          (case error of
             Some e \<Rightarrow> showToast ''Error'' ''Failed to load books'' ''error'' st
           | None \<Rightarrow> st))"

text \<open>
  \<^verbatim>\<open>connectedCallback\<close> awaits \<^verbatim>\<open>getSessionInfo()\<close> at once; what it does is what it
  does when that call has settled.
\<close>

definition connectedCallback :: "session_info option settled \<Rightarrow> component \<Rightarrow> component" where
  "connectedCallback r st =
     (case r of
        Resolved si \<Rightarrow> st\<lparr>sessionInfo := si\<rparr>
      | Rejected \<Rightarrow>
          showToast ''Error'' ''Failed to initialize recommendation service'' ''error'' st)"

text \<open>
  An asynchronous method runs up to its \<^verbatim>\<open>await\<close>, lets other handlers run, and
  resumes when the awaited call has settled. \<open>performSearch_begin\<close> is the part of
  \<^verbatim>\<open>performSearch\<close> before the \<^verbatim>\<open>await\<close> (it issues the call with the search term of
  that moment), \<open>performSearch_resume\<close> the part after it, on the state of the moment of
  resumption. \<open>performSearch\<close> is a call that no other handler interleaves with. The
  remote call resolves to a list or to \<^verbatim>\<open>null\<close>, on which \<^verbatim>\<open>result.map\<close> throws into
  the \<^verbatim>\<open>catch\<close> block, or it is rejected.
\<close>

definition performSearch_begin :: "component \<Rightarrow> component" where
  "performSearch_begin st =
     st\<lparr>isLoading := True, searchCalls := searchCalls st @ [searchTerm st]\<rparr>"

definition performSearch_resume :: "raw_book list option settled \<Rightarrow> component \<Rightarrow> component" where
  "performSearch_resume r st =
     (case r of
        Resolved (Some result) \<Rightarrow>
          st\<lparr>books := map (\<lambda>book. spread book (Id' book \<in> favoriteBooks st)
                                  (formatPrice (Price__c book))) result,
             isLoading := False\<rparr>
      | _ \<Rightarrow>
          (showToast ''Error'' ''Failed to search books'' ''error'' st)\<lparr>isLoading := False\<rparr>)"

definition performSearch :: "raw_book list option settled \<Rightarrow> component \<Rightarrow> component" where
  "performSearch r st = performSearch_resume r (performSearch_begin st)"

subsection \<open>The debounced search input\<close>

text \<open>
  \<^verbatim>\<open>clearTimeout\<close> removes a pending timeout and ignores any other argument;
  \<^verbatim>\<open>setTimeout\<close> registers one under a fresh handle. The only callback the component
  registers is \<^verbatim>\<open>() => { this.performSearch(); }\<close>, so a pending timeout needs no
  callback in the table.
\<close>

definition clearTimeout :: "nat option \<Rightarrow> component \<Rightarrow> component" where
  "clearTimeout h st =
     (case h of
        None \<Rightarrow> st
      | Some i \<Rightarrow> st\<lparr>timers := filter (\<lambda>t. fst t \<noteq> i) (timers st)\<rparr>)"

definition setTimeout :: "nat \<Rightarrow> component \<Rightarrow> nat \<times> component" where
  "setTimeout delay st =
     (nextHandle st,
      st\<lparr>timers := timers st @ [(nextHandle st, now st + delay)],
         nextHandle := Suc (nextHandle st)\<rparr>)"

definition handleSearchChange :: "string \<Rightarrow> component \<Rightarrow> component" where
  "handleSearchChange v st =
     (let st1 = st\<lparr>searchTerm := v\<rparr>;
          st2 = clearTimeout (delayTimeout st1) st1;
          (h, st3) = setTimeout 300 st2
      in st3\<lparr>delayTimeout := Some h\<rparr>)"

text \<open>
  Time passes to \<open>t\<close>: every pending timeout that is due by then fires, that is, starts
  a search.
\<close>

definition fire_due :: "component \<Rightarrow> component" where
  "fire_due st =
     foldl (\<lambda>s t. performSearch_begin s)
       (st\<lparr>timers := filter (\<lambda>t. \<not> snd t \<le> now st) (timers st)\<rparr>)
       (filter (\<lambda>t. snd t \<le> now st) (timers st))"

definition advance :: "nat \<Rightarrow> component \<Rightarrow> component" where
  "advance t st = fire_due (st\<lparr>now := max (now st) t\<rparr>)"

text \<open>A keystroke at time \<open>t\<close> that leaves the text \<open>v\<close> in the input.\<close>

definition type_at :: "nat \<times> string \<Rightarrow> component \<Rightarrow> component" where
  "type_at k st = handleSearchChange (snd k) (advance (fst k) st)"

fun typing :: "(nat \<times> string) list \<Rightarrow> component \<Rightarrow> component" where
  "typing [] st = st"
| "typing (k # ks) st = typing ks (type_at k st)"

text \<open>
  Keystrokes within a quiet window: each comes less than 300 ms after the one before.
\<close>

fun within_window :: "nat \<Rightarrow> (nat \<times> string) list \<Rightarrow> bool" where
  "within_window prev [] = True"
| "within_window prev (k # ks) =
     (prev \<le> fst k \<and> fst k < prev + 300 \<and> within_window (fst k) ks)"

text \<open>
  Keystrokes in the order of time, none before \<open>prev\<close>; and the texts that a debounced
  input is to search for while such keystrokes arrive: the text of every keystroke that
  the next one follows 300 ms later or more. (The last keystroke is still waiting.)
\<close>

fun in_order :: "nat \<Rightarrow> (nat \<times> string) list \<Rightarrow> bool" where
  "in_order prev [] = True"
| "in_order prev (k # ks) = (prev \<le> fst k \<and> in_order (fst k) ks)"

fun fired :: "(nat \<times> string) list \<Rightarrow> string list" where
  "fired [] = []"
| "fired [k] = []"
| "fired (k # k' # ks) =
     (if fst k + 300 \<le> fst k' then [snd k] else []) @ fired (k' # ks)"

subsection \<open>Favorites and recommendations\<close>

text \<open>
  \<^verbatim>\<open>getRecommendations\<close>: \<open>getRecommendations_begin\<close> runs up to the \<^verbatim>\<open>await\<close> of
  \<^verbatim>\<open>invokeAgent\<close>, or to the early \<^verbatim>\<open>return\<close> when there is no session;
  \<open>getRecommendations_resume\<close> is the rest of the \<^verbatim>\<open>try\<close> with its \<^verbatim>\<open>catch\<close> and
  \<^verbatim>\<open>finally\<close>. An agent answers with a text or with \<^verbatim>\<open>null\<close>.
\<close>

definition getRecommendations_begin :: "book \<Rightarrow> component \<Rightarrow> component" where
  "getRecommendations_begin book st =
     (case sessionInfo st of
        None \<Rightarrow> showToast ''Error'' ''Recommendation service not initialized'' ''error'' st
      | Some si \<Rightarrow>
          (let message = ''Find Recommended Books similar to '' @ Name book @
                         '', language '' @ Language__c book @
                         '' and Genre '' @ Genre__c book
           in st\<lparr>selectedBookName := Name book,
                 isLoading := True,
                 agentCalls := agentCalls st @
                   [InvokeAgent (accessToken si) (sessionId si) message]\<rparr>))"

text \<open>
  \<^verbatim>\<open>recommendations || '...'\<close>: the right operand replaces a falsy left one, which
  for an answer is \<^verbatim>\<open>null\<close> or the empty string.
\<close>

definition or_else :: "string option \<Rightarrow> string \<Rightarrow> string" where
  "or_else answer d = (case answer of Some text \<Rightarrow> if text \<noteq> [] then text else d | None \<Rightarrow> d)"

definition getRecommendations_resume :: "string option settled \<Rightarrow> component \<Rightarrow> component" where
  "getRecommendations_resume r st =
     (case r of
        Resolved answer \<Rightarrow>
          st\<lparr>recommendations :=
                or_else answer ''No recommendations available at this time.'',
             showRecommendations := True,
             isLoading := False\<rparr>
      | Rejected \<Rightarrow>
          (showToast ''Error'' ''Failed to get book recommendations'' ''error'' st)
            \<lparr>isLoading := False\<rparr>)"

definition getRecommendations :: "book \<Rightarrow> string option settled \<Rightarrow> component \<Rightarrow> component" where
  "getRecommendations book r st =
     (if sessionInfo st = None then getRecommendations_begin book st
      else getRecommendations_resume r (getRecommendations_begin book st))"

text \<open>
  \<^verbatim>\<open>handleFavoriteToggle\<close>: \<^verbatim>\<open>find\<close> yields the first book with the identifier, and
  the assignment to \<^verbatim>\<open>book.isFavorite\<close> changes that object of the list in place. The
  handler returns the component and the button it wrote to; when the book became a
  favorite it is left waiting in \<^verbatim>\<open>getRecommendations\<close>.
\<close>

fun update_first :: "('a \<Rightarrow> bool) \<Rightarrow> ('a \<Rightarrow> 'a) \<Rightarrow> 'a list \<Rightarrow> 'a list" where
  "update_first P f [] = []"
| "update_first P f (x # xs) = (if P x then f x # xs else x # update_first P f xs)"

definition handleFavoriteToggle :: "string \<Rightarrow> button \<Rightarrow> component \<Rightarrow> component \<times> button" where
  "handleFavoriteToggle bookId btn st =
     (case find (\<lambda>b. Id' b = bookId) (books st) of
        None \<Rightarrow> (st, btn)
      | Some found \<Rightarrow>
          (let book = found\<lparr>isFavorite := \<not> isFavorite found\<rparr>;
               st1 = st\<lparr>books := update_first (\<lambda>b. Id' b = bookId)
                                   (\<lambda>b. b\<lparr>isFavorite := \<not> isFavorite b\<rparr>) (books st)\<rparr>
           in if isFavorite book
              then (getRecommendations_begin book
                      (showToast ''Success'' (Name book @ '' added to favorites'') ''success''
                         (st1\<lparr>favoriteBooks := insert bookId (favoriteBooks st1)\<rparr>)),
                    btn\<lparr>iconName := ''utility:favorite'', variant := ''brand''\<rparr>)
              else (showToast ''Success'' (Name book @ '' removed from favorites'') ''success''
                      (st1\<lparr>favoriteBooks := favoriteBooks st1 - {bookId}\<rparr>),
                    btn\<lparr>iconName := ''utility:favorite_alt'',
                        variant := ''border-filled''\<rparr>)))"

text \<open>The two looks that the handler gives the button.\<close>

definition plain_button :: button where
  "plain_button = \<lparr>iconName = ''utility:favorite_alt'', variant = ''border-filled''\<rparr>"

definition favorite_button :: button where
  "favorite_button = \<lparr>iconName = ''utility:favorite'', variant = ''brand''\<rparr>"

definition handleCloseRecommendations :: "component \<Rightarrow> component" where
  "handleCloseRecommendations st =
     st\<lparr>showRecommendations := False, recommendations := [], selectedBookName := []\<rparr>"

subsection \<open>Records and states of the examples\<close>

definition dune :: raw_book where
  "dune = \<lparr>Id' = ''1'', Name = ''Dune'', Price__c = Number (Fin 15),
           Language__c = ''English'', Genre__c = ''SciFi''\<rparr>"

definition emma :: raw_book where
  "emma = \<lparr>Id' = ''2'', Name = ''Emma'', Price__c = Undefined,
           Language__c = ''English'', Genre__c = ''Novel''\<rparr>"

definition a_session :: session_info where
  "a_session = \<lparr>accessToken = ''token'', sessionId = ''session''\<rparr>"

section \<open>The printed price\<close>

text \<open>Rules that evaluate the rounding to a double and the printing on numerals.\<close>

lemma floor_rat_numeral_div:
  "\<lfloor>numeral a / numeral b :: rat\<rfloor> = numeral a div numeral b"
  by (metis floor_divide_of_int_eq of_int_numeral)

lemma ceiling_rat_numeral_div:
  "\<lceil>numeral a / numeral b :: rat\<rceil> = - (- numeral a div numeral b)"
  by (metis ceiling_divide_eq_div of_int_numeral)

lemma bitlen_0: "bitlen 0 = 0"
  by (simp add: bitlen.simps)

lemma bitlen_pos: "0 < n \<Longrightarrow> bitlen n = Suc (bitlen (n div 2))"
  by (subst bitlen.simps) simp

lemmas num_eval = ilog2_def pow2_def round_half_even_def Let_def bitlen_0 bitlen_pos
  floor_rat_numeral_div ceiling_rat_numeral_div

lemma dec_small: "n < 10 \<Longrightarrow> dec n = [digit_char n]"
  by (simp add: dec.simps)

lemma dec_big: "10 \<le> n \<Longrightarrow> dec n = dec (n div 10) @ [digit_char (n mod 10)]"
  by (subst dec.simps) simp

lemma double_12_5: "to_double (25 / 2) = Fin (25 / 2)"
  unfolding to_double_def Let_def by (simp add: num_eval)

lemma double_9_999: "to_double (9999 / 1000) = Fin (5628936584259699 / 562949953421312)"
  unfolding to_double_def Let_def by (simp add: num_eval)

lemma double_1e21: "to_double 1000000000000000000000 = Fin 1000000000000000000000"
  unfolding to_double_def Let_def by (simp add: num_eval)

lemma double_2e21: "to_double 2000000000000000000000 = Fin 2000000000000000000000"
  unfolding to_double_def Let_def by (simp add: num_eval)

lemma shortest_1e21: "shortest 1000000000000000000000 22 1 17 = (1, 1)"
proof -
  have f: "(17::nat) = Suc 16" by simp
  have r1: "reads_back 1000000000000000000000 1000000000000000000000"
    by (simp add: reads_back_def double_1e21)
  have r2: "\<not> reads_back 1000000000000000000000 2000000000000000000000"
    by (simp add: reads_back_def double_2e21)
  show ?thesis
    unfolding f shortest.simps Let_def using r1 r2 by simp
qed

lemma length_dec_1e21: "length (dec 1000000000000000000000) = 22"
  by (simp add: dec_small dec_big)

lemma big_toString_1e21: "big_toString 1000000000000000000000 = ''1e+21''"
proof -
  have n: "nat \<lfloor>1000000000000000000000 :: rat\<rfloor> = 1000000000000000000000" by simp
  show ?thesis
    unfolding big_toString_def n length_dec_1e21 shortest_1e21 Let_def
    by (simp add: dec_small dec_big digit_char_def)
qed

lemma toFixed2_1e21: "toFixed2 (Fin (10 ^ 21)) = ''1e+21''"
  by (simp add: toFixed2_def big_toString_1e21)

lemma formatPrice_Fin: "x \<noteq> 0 \<Longrightarrow> formatPrice (Number (Fin x)) = ''$'' @ toFixed2 (Fin x)"
  by (simp add: formatPrice.simps)

lemmas fixed_eval = toFixed2_def Let_def floor_rat_numeral_div dec_small dec_big digit_char_def

lemma fmt_12_5: "formatPrice (Number (Fin (25 / 2))) = ''$12.50''"
  by (simp add: formatPrice_Fin fixed_eval)

lemma fmt_15: "formatPrice (Number (Fin 15)) = ''$15.00''"
  by (simp add: formatPrice_Fin fixed_eval)

lemma fmt_9_999: "formatPrice (Number (Fin (5628936584259699 / 562949953421312))) = ''$10.00''"
  by (simp add: formatPrice_Fin fixed_eval)

text \<open>Every character that \<^const>\<open>dec\<close> prints is a digit, and it prints at least one.\<close>

lemma digit_range: "d < 10 \<Longrightarrow> d \<in> {0, 1, 2, 3, 4, 5, 6, 7, 8, 9::nat}"
  by auto

lemma is_digit_digit_char: "d < 10 \<Longrightarrow> is_digit (digit_char d)"
  using digit_range [of d] by (auto simp: is_digit_def digit_char_def)

lemma dec_not_Nil: "dec n \<noteq> []"
  by (subst dec.simps) simp

lemma dec_digits: "list_all is_digit (dec n)"
proof (induction n rule: dec.induct)
  case (1 n)
  show ?case
  proof (cases "n < 10")
    case True
    then show ?thesis by (simp add: dec_small is_digit_digit_char)
  next
    case False
    with 1 show ?thesis by (simp add: dec_big is_digit_digit_char)
  qed
qed

lemma hd_dec_not_minus: "hd (dec n) \<noteq> CHR ''-''"
proof -
  have "is_digit (hd (dec n))"
    using dec_digits [of n] dec_not_Nil [of n] by (cases "dec n") simp_all
  then show ?thesis by (auto simp: is_digit_def)
qed

lemma length_dec_ge: "100 \<le> n \<Longrightarrow> 3 \<le> length (dec n)"
proof -
  assume h: "100 \<le> n"
  then have a: "dec n = dec (n div 10) @ [digit_char (n mod 10)]" by (simp add: dec_big)
  from h have "10 \<le> n div 10" by simp
  then have b: "dec (n div 10) = dec (n div 10 div 10) @ [digit_char (n div 10 mod 10)]"
    by (rule dec_big)
  show ?thesis using dec_not_Nil [of "n div 10 div 10"]
    by (cases "dec (n div 10 div 10)") (simp_all add: a b)
qed

text \<open>The padding and the cut of toFixed2, on the digits of the hundredths.\<close>

lemma fixed_split:
  fixes n :: nat
  defines "m \<equiv> (if length (dec n) \<le> 2 then replicate (3 - length (dec n)) CHR ''0'' @ dec n else dec n)"
  shows "take (length m - 2) m = dec (n div 100)"
    and "drop (length m - 2) m = [digit_char (n div 10 mod 10), digit_char (n mod 10)]"
proof -
  consider "n < 10" | "10 \<le> n" "n < 100" | "100 \<le> n" by linarith
  then have "take (length m - 2) m = dec (n div 100) \<and>
    drop (length m - 2) m = [digit_char (n div 10 mod 10), digit_char (n mod 10)]"
  proof cases
    case 1
    then have "n div 100 = 0" "n div 10 = 0" by simp_all
    with 1 show ?thesis by (simp add: m_def dec_small digit_char_def)
  next
    case 2
    then have "n div 10 < 10" "n div 100 = 0" by simp_all
    with 2 show ?thesis by (simp add: m_def dec_big dec_small digit_char_def)
  next
    case 3
    then have a: "dec n = dec (n div 10) @ [digit_char (n mod 10)]" by (simp add: dec_big)
    from 3 have "10 \<le> n div 10" by simp
    then have b: "dec (n div 10) = dec (n div 10 div 10) @ [digit_char (n div 10 mod 10)]"
      by (rule dec_big)
    have c: "n div 10 div 10 = n div 100" by (simp add: div_mult2_eq)
    have "\<not> length (dec n) \<le> 2" using length_dec_ge [OF 3] by simp
    then have p: "m = dec n" by (simp add: m_def)
    show ?thesis unfolding p by (simp add: a b c)
  qed
  then show "take (length m - 2) m = dec (n div 100)"
    and "drop (length m - 2) m = [digit_char (n div 10 mod 10), digit_char (n mod 10)]"
    by simp_all
qed

lemma toFixed2_small:
  assumes "\<bar>x\<bar> < 10 ^ 21"
  shows "toFixed2 (Fin x) =
    (if x < 0 then ''-'' else []) @ dec (cents x div 100) @ ''.'' @
    [digit_char (cents x div 10 mod 10), digit_char (cents x mod 10)]"
proof -
  have n: "\<not> 10 ^ 21 \<le> \<bar>x\<bar>" using assms by simp
  show ?thesis
    unfolding toFixed2_def jsnum.case Let_def if_not_P [OF n] cents_def [symmetric]
    using fixed_split [of "cents x"] by simp
qed

lemma two_fraction_digits_shape:
  assumes "a < 10" "b < 10"
  shows "two_fraction_digits (''$'' @ (if neg then ''-'' else []) @ dec n @ ''.'' @
    [digit_char a, digit_char b])"
proof (cases neg)
  case True
  then show ?thesis
    using assms dec_digits [of n] dec_not_Nil [of n]
    by (simp add: two_fraction_digits_def is_digit_digit_char)
next
  case False
  have "take 1 (dec n @ ''.'' @ [digit_char a, digit_char b]) \<noteq> ''-''"
    using hd_dec_not_minus [of n] dec_not_Nil [of n] by (cases "dec n") simp_all
  with False show ?thesis
    using assms dec_digits [of n] dec_not_Nil [of n]
    by (simp add: two_fraction_digits_def is_digit_digit_char)
qed

text \<open>
  C1, as the code has it. \<^verbatim>\<open>formatPrice\<close> returns \<^verbatim>\<open>$0.00\<close> for an undefined, an absent
  (\<^verbatim>\<open>null\<close>) and a zero price, and for not-a-number. For every other finite price of
  magnitude below \<open>10^21\<close> it returns the dollar sign, a minus sign when the price is
  negative, the whole part of the amount rounded to hundredths (a half away from zero),
  a point, and exactly two digits. The double \<^verbatim>\<open>12.5\<close> gives \<^verbatim>\<open>$12.50\<close> and the double
  \<^verbatim>\<open>9.999\<close> gives \<^verbatim>\<open>$10.00\<close>. The specification states the two digits for every
  numeric price; that fails from \<open>10^21\<close> on, where \<^verbatim>\<open>toFixed\<close> prints an exponent, and
  for an infinite price, which prints by name.
\<close>

theorem formatPrice_currency:
  "formatPrice Undefined = ''$0.00'' \<and> formatPrice Null = ''$0.00'' \<and>
   formatPrice (Number (Fin 0)) = ''$0.00'' \<and> formatPrice (Number NaN) = ''$0.00'' \<and>
   (x \<noteq> 0 \<and> \<bar>x\<bar> < 10 ^ 21 \<longrightarrow>
      formatPrice (Number (Fin x)) =
        ''$'' @ (if x < 0 then ''-'' else []) @ dec (cents x div 100) @ ''.'' @
        [digit_char (cents x div 10 mod 10), digit_char (cents x mod 10)] \<and>
      two_fraction_digits (formatPrice (Number (Fin x)))) \<and>
   formatPrice (Number (to_double (25 / 2))) = ''$12.50'' \<and>
   formatPrice (Number (to_double (9999 / 1000))) = ''$10.00''"
proof -
  have absent: "formatPrice Undefined = ''$0.00''" "formatPrice Null = ''$0.00''"
    "formatPrice (Number (Fin 0)) = ''$0.00''" "formatPrice (Number NaN) = ''$0.00''"
    by (simp_all add: formatPrice.simps)
  have small: "x \<noteq> 0 \<and> \<bar>x\<bar> < 10 ^ 21 \<longrightarrow>
      formatPrice (Number (Fin x)) =
        ''$'' @ (if x < 0 then ''-'' else []) @ dec (cents x div 100) @ ''.'' @
        [digit_char (cents x div 10 mod 10), digit_char (cents x mod 10)] \<and>
      two_fraction_digits (formatPrice (Number (Fin x)))"
  proof
    assume h: "x \<noteq> 0 \<and> \<bar>x\<bar> < 10 ^ 21"
    then have e: "formatPrice (Number (Fin x)) =
        ''$'' @ (if x < 0 then ''-'' else []) @ dec (cents x div 100) @ ''.'' @
        [digit_char (cents x div 10 mod 10), digit_char (cents x mod 10)]"
      by (simp add: formatPrice_Fin toFixed2_small)
    have "two_fraction_digits (''$'' @ (if x < 0 then ''-'' else []) @
        dec (cents x div 100) @ ''.'' @
        [digit_char (cents x div 10 mod 10), digit_char (cents x mod 10)])"
      by (rule two_fraction_digits_shape) simp_all
    with e show "formatPrice (Number (Fin x)) =
        ''$'' @ (if x < 0 then ''-'' else []) @ dec (cents x div 100) @ ''.'' @
        [digit_char (cents x div 10 mod 10), digit_char (cents x mod 10)] \<and>
      two_fraction_digits (formatPrice (Number (Fin x)))"
      by (simp only: simp_thms)
  qed
  have ex1: "formatPrice (Number (to_double (25 / 2))) = ''$12.50''"
    by (simp only: double_12_5 fmt_12_5)
  have ex2: "formatPrice (Number (to_double (9999 / 1000))) = ''$10.00''"
    by (simp only: double_9_999 fmt_9_999)
  from absent small ex1 ex2 show ?thesis by blast
qed

theorem formatPrice_currency_witness:
  "((25 / 2 :: rat) \<noteq> 0 \<and> \<bar>25 / 2 :: rat\<bar> < 10 ^ 21) \<and>
   formatPrice (Number (Fin (25 / 2))) = ''$12.50'' \<and>
   two_fraction_digits (formatPrice (Number (Fin (25 / 2))))"
  using formatPrice_currency [of "25 / 2"]
  by (simp add: cents_def floor_rat_numeral_div dec_small dec_big digit_char_def
      two_fraction_digits_def is_digit_def)

theorem formatPrice_exponent_counterexample:
  "formatPrice (Number (to_double (10 ^ 21))) = ''$1e+21'' \<and>
   \<not> two_fraction_digits (formatPrice (Number (to_double (10 ^ 21)))) \<and>
   formatPrice (Number PosInfinity) = ''$Infinity'' \<and>
   \<not> two_fraction_digits (formatPrice (Number PosInfinity))"
proof -
  have a: "formatPrice (Number (to_double (10 ^ 21))) = ''$1e+21''"
    using toFixed2_1e21 by (simp add: double_1e21 formatPrice_Fin)
  have b: "formatPrice (Number PosInfinity) = ''$Infinity''"
    by (simp add: formatPrice.simps toFixed2_def)
  show ?thesis
    unfolding a b by (simp add: two_fraction_digits_def is_digit_def)
qed

section \<open>Search results\<close>

lemma spread_fields:
  "Id' (spread b f p) = Id' b" "Name (spread b f p) = Name b"
  "Price__c (spread b f p) = Price__c b" "Language__c (spread b f p) = Language__c b"
  "Genre__c (spread b f p) = Genre__c b" "isFavorite (spread b f p) = f"
  "priceFormatted (spread b f p) = p"
  by (simp_all add: spread_def)

lemma books_performSearch_resume:
  "books (performSearch_resume (Resolved (Some result)) st) =
   map (\<lambda>b. spread b (Id' b \<in> favoriteBooks st) (formatPrice (Price__c b))) result"
  by (simp add: performSearch_resume_def)

text \<open>
  C2. When the remote search succeeds, the list of books is replaced by the mapped
  result: it has one book for each record, in order, with the fields of the record, with
  \<^verbatim>\<open>isFavorite\<close> the membership of the identifier in the favorite set of the moment the
  answer is handled, and with \<^verbatim>\<open>priceFormatted\<close> the formatted price. The list does not
  depend on the books shown before. A search that answers with the one record of Dune
  shows one book, priced \<^verbatim>\<open>$15.00\<close>, a favorite exactly when \<^verbatim>\<open>1\<close> is in the set.
\<close>

theorem performSearch_success:
  "length (books (performSearch_resume (Resolved (Some result)) st)) = length result \<and>
   (\<forall>i < length result.
      isFavorite (books (performSearch_resume (Resolved (Some result)) st) ! i) =
        (Id' (result ! i) \<in> favoriteBooks st) \<and>
      priceFormatted (books (performSearch_resume (Resolved (Some result)) st) ! i) =
        formatPrice (Price__c (result ! i)) \<and>
      Id' (books (performSearch_resume (Resolved (Some result)) st) ! i) = Id' (result ! i) \<and>
      Name (books (performSearch_resume (Resolved (Some result)) st) ! i) = Name (result ! i) \<and>
      Price__c (books (performSearch_resume (Resolved (Some result)) st) ! i) =
        Price__c (result ! i) \<and>
      Language__c (books (performSearch_resume (Resolved (Some result)) st) ! i) =
        Language__c (result ! i) \<and>
      Genre__c (books (performSearch_resume (Resolved (Some result)) st) ! i) =
        Genre__c (result ! i)) \<and>
   books (performSearch_resume (Resolved (Some result)) (st\<lparr>books := old\<rparr>)) =
     books (performSearch_resume (Resolved (Some result)) st) \<and>
   books (performSearch (Resolved (Some result)) st) =
     books (performSearch_resume (Resolved (Some result)) st) \<and>
   books (performSearch_resume (Resolved (Some [dune])) st) =
     [spread dune (''1'' \<in> favoriteBooks st) ''$15.00'']"
proof -
  have len: "length (books (performSearch_resume (Resolved (Some result)) st)) = length result"
    by (simp add: books_performSearch_resume)
  have each: "\<forall>i < length result.
      isFavorite (books (performSearch_resume (Resolved (Some result)) st) ! i) =
        (Id' (result ! i) \<in> favoriteBooks st) \<and>
      priceFormatted (books (performSearch_resume (Resolved (Some result)) st) ! i) =
        formatPrice (Price__c (result ! i)) \<and>
      Id' (books (performSearch_resume (Resolved (Some result)) st) ! i) = Id' (result ! i) \<and>
      Name (books (performSearch_resume (Resolved (Some result)) st) ! i) = Name (result ! i) \<and>
      Price__c (books (performSearch_resume (Resolved (Some result)) st) ! i) =
        Price__c (result ! i) \<and>
      Language__c (books (performSearch_resume (Resolved (Some result)) st) ! i) =
        Language__c (result ! i) \<and>
      Genre__c (books (performSearch_resume (Resolved (Some result)) st) ! i) =
        Genre__c (result ! i)"
    by (simp add: books_performSearch_resume spread_fields)
  have old: "books (performSearch_resume (Resolved (Some result)) (st\<lparr>books := old\<rparr>)) =
     books (performSearch_resume (Resolved (Some result)) st)"
    by (simp add: books_performSearch_resume)
  have whole: "books (performSearch (Resolved (Some result)) st) =
     books (performSearch_resume (Resolved (Some result)) st)"
    by (simp add: performSearch_def books_performSearch_resume performSearch_begin_def)
  have ex: "books (performSearch_resume (Resolved (Some [dune])) st) =
     [spread dune (''1'' \<in> favoriteBooks st) ''$15.00'']"
    by (simp add: books_performSearch_resume dune_def fmt_15)
  from len each old whole ex show ?thesis by blast
qed

theorem performSearch_success_witness:
  "(0::nat) < length [dune] \<and>
   isFavorite (books (performSearch_resume (Resolved (Some [dune]))
      (initial\<lparr>favoriteBooks := {''1''}\<rparr>)) ! 0) \<and>
   priceFormatted (books (performSearch_resume (Resolved (Some [dune]))
      (initial\<lparr>favoriteBooks := {''1''}\<rparr>)) ! 0) = ''$15.00''"
  using performSearch_success
    [where result = "[dune]" and st = "initial\<lparr>favoriteBooks := {''1''}\<rparr>" and old = "[]"]
  by (simp add: dune_def fmt_15 spread_fields)

text \<open>
  C3. When the remote search fails, the list of books stays as it was, one error toast
  \<^verbatim>\<open>Failed to search books\<close> is dispatched, and the loading flag is cleared. The flag
  is cleared however the call ends: a result, a failure, or an empty result.
\<close>

theorem performSearch_failure:
  "books (performSearch_resume Rejected st) = books st \<and>
   toasts (performSearch_resume Rejected st) =
     toasts st @ [ShowToastEvent ''Error'' ''Failed to search books'' ''error''] \<and>
   books (performSearch Rejected st) = books st \<and>
   toasts (performSearch Rejected st) =
     toasts st @ [ShowToastEvent ''Error'' ''Failed to search books'' ''error''] \<and>
   \<not> isLoading (performSearch_resume r st) \<and>
   \<not> isLoading (performSearch r st) \<and>
   \<not> isLoading (performSearch (Resolved (Some [])) st)"
proof -
  have a: "\<not> isLoading (performSearch_resume q s)" for q s
    by (simp add: performSearch_resume_def showToast_def split: settled.split option.split)
  have b: "books (performSearch_resume Rejected s) = books s \<and>
     toasts (performSearch_resume Rejected s) =
       toasts s @ [ShowToastEvent ''Error'' ''Failed to search books'' ''error'']" for s
    by (simp add: performSearch_resume_def showToast_def)
  have c: "books (performSearch_begin st) = books st"
    "toasts (performSearch_begin st) = toasts st"
    by (simp_all add: performSearch_begin_def)
  show ?thesis
    using a [of r st] a b [of st] b [of "performSearch_begin st"] c
    by (simp add: performSearch_def)
qed

section \<open>The catalog loader\<close>

text \<open>
  C6. When the wire service delivers the catalog, every book of the new list has
  \<^verbatim>\<open>isFavorite\<close> false, whatever the favorite set holds, and \<^verbatim>\<open>priceFormatted\<close> the
  formatted price of its record. When it delivers an error, the toast
  \<^verbatim>\<open>Failed to load books\<close> is dispatched and nothing else changes, the list of books
  included.
\<close>

theorem wiredBooks_loader:
  "length (books (wiredBooks error (Some d) st)) = length d \<and>
   (\<forall>i < length d.
      \<not> isFavorite (books (wiredBooks error (Some d) st) ! i) \<and>
      priceFormatted (books (wiredBooks error (Some d) st) ! i) =
        formatPrice (Price__c (d ! i)) \<and>
      Id' (books (wiredBooks error (Some d) st) ! i) = Id' (d ! i)) \<and>
   wiredBooks (Some e) None st =
     st\<lparr>toasts := toasts st @ [ShowToastEvent ''Error'' ''Failed to load books'' ''error'']\<rparr> \<and>
   books (wiredBooks (Some e) None st) = books st"
  by (simp add: wiredBooks_def showToast_def spread_fields)

theorem wiredBooks_loader_witness:
  "(0::nat) < length [dune] \<and>
   Id' dune \<in> favoriteBooks (initial\<lparr>favoriteBooks := {''1''}\<rparr>) \<and>
   \<not> isFavorite (books (wiredBooks None (Some [dune])
         (initial\<lparr>favoriteBooks := {''1''}\<rparr>)) ! 0) \<and>
   priceFormatted (books (wiredBooks None (Some [dune])
         (initial\<lparr>favoriteBooks := {''1''}\<rparr>)) ! 0) = ''$15.00''"
  using wiredBooks_loader
    [where error = None and d = "[dune]" and st = "initial\<lparr>favoriteBooks := {''1''}\<rparr>"
       and e = "[]"]
  by (simp add: dune_def fmt_15 spread_fields)

section \<open>Recommendations\<close>

lemma getRecommendations_begin_None:
  "sessionInfo st = None \<Longrightarrow>
   getRecommendations_begin book st =
     st\<lparr>toasts := toasts st @
        [ShowToastEvent ''Error'' ''Recommendation service not initialized'' ''error'']\<rparr>"
  by (simp add: getRecommendations_begin_def showToast_def)

lemma getRecommendations_None:
  "sessionInfo st = None \<Longrightarrow>
   getRecommendations book r st =
     st\<lparr>toasts := toasts st @
        [ShowToastEvent ''Error'' ''Recommendation service not initialized'' ''error'']\<rparr>"
  by (simp add: getRecommendations_def getRecommendations_begin_None)

lemma getRecommendations_begin_Some:
  "sessionInfo st = Some si \<Longrightarrow>
   getRecommendations_begin book st =
     st\<lparr>selectedBookName := Name book, isLoading := True,
        agentCalls := agentCalls st @
          [InvokeAgent (accessToken si) (sessionId si)
             (''Find Recommended Books similar to '' @ Name book @ '', language '' @
              Language__c book @ '' and Genre '' @ Genre__c book)]\<rparr>"
  by (simp add: getRecommendations_begin_def)

lemma find_update_first:
  "find P xs = Some x \<Longrightarrow> P (f x) \<Longrightarrow> find P (update_first P f xs) = Some (f x)"
  by (induction xs) (auto split: if_splits)

text \<open>
  C7. A call of \<^verbatim>\<open>getRecommendations\<close> without session information dispatches the
  error toast \<^verbatim>\<open>Recommendation service not initialized\<close> and stops: no call to the
  agent is issued, the recommendation view is not opened, and the favorite set and the
  books are as the toggle left them. So a click that makes a book a favorite while no
  session exists commits the favorite, dispatches the success toast and then the error
  toast, and neither calls the agent nor opens the view.
\<close>

theorem getRecommendations_without_session:
  assumes "sessionInfo st = None"
  shows "toasts (getRecommendations book r st) =
           toasts st @
           [ShowToastEvent ''Error'' ''Recommendation service not initialized'' ''error''] \<and>
         agentCalls (getRecommendations book r st) = agentCalls st \<and>
         showRecommendations (getRecommendations book r st) = showRecommendations st \<and>
         favoriteBooks (getRecommendations book r st) = favoriteBooks st \<and>
         books (getRecommendations book r st) = books st \<and>
         (find (\<lambda>b. Id' b = bookId) (books st) = Some found \<and> \<not> isFavorite found \<longrightarrow>
            bookId \<in> favoriteBooks (fst (handleFavoriteToggle bookId btn st)) \<and>
            find (\<lambda>b. Id' b = bookId) (books (fst (handleFavoriteToggle bookId btn st))) =
              Some (found\<lparr>isFavorite := True\<rparr>) \<and>
            toasts (fst (handleFavoriteToggle bookId btn st)) =
              toasts st @
              [ShowToastEvent ''Success'' (Name found @ '' added to favorites'') ''success'',
               ShowToastEvent ''Error'' ''Recommendation service not initialized'' ''error''] \<and>
            agentCalls (fst (handleFavoriteToggle bookId btn st)) = agentCalls st \<and>
            showRecommendations (fst (handleFavoriteToggle bookId btn st)) =
              showRecommendations st)"
proof -
  have direct: "toasts (getRecommendations book r st) =
           toasts st @
           [ShowToastEvent ''Error'' ''Recommendation service not initialized'' ''error''] \<and>
         agentCalls (getRecommendations book r st) = agentCalls st \<and>
         showRecommendations (getRecommendations book r st) = showRecommendations st \<and>
         favoriteBooks (getRecommendations book r st) = favoriteBooks st \<and>
         books (getRecommendations book r st) = books st"
    using assms by (simp add: getRecommendations_None)
  have toggle: "bookId \<in> favoriteBooks (fst (handleFavoriteToggle bookId btn st)) \<and>
            find (\<lambda>b. Id' b = bookId) (books (fst (handleFavoriteToggle bookId btn st))) =
              Some (found\<lparr>isFavorite := True\<rparr>) \<and>
            toasts (fst (handleFavoriteToggle bookId btn st)) =
              toasts st @
              [ShowToastEvent ''Success'' (Name found @ '' added to favorites'') ''success'',
               ShowToastEvent ''Error'' ''Recommendation service not initialized'' ''error''] \<and>
            agentCalls (fst (handleFavoriteToggle bookId btn st)) = agentCalls st \<and>
            showRecommendations (fst (handleFavoriteToggle bookId btn st)) =
              showRecommendations st"
    if f: "find (\<lambda>b. Id' b = bookId) (books st) = Some found" and n: "\<not> isFavorite found"
  proof -
    have "Id' found = bookId"
      using f by (auto simp: find_Some_iff)
    then have "find (\<lambda>b. Id' b = bookId)
        (update_first (\<lambda>b. Id' b = bookId) (\<lambda>b. b\<lparr>isFavorite := \<not> isFavorite b\<rparr>) (books st)) =
        Some (found\<lparr>isFavorite := \<not> isFavorite found\<rparr>)"
      using f by (intro find_update_first) simp_all
    then show ?thesis
      using f n assms
      by (simp add: handleFavoriteToggle_def Let_def getRecommendations_begin_None
          showToast_def)
  qed
  from direct toggle show ?thesis by blast
qed

theorem getRecommendations_without_session_witness:
  "sessionInfo (wiredBooks None (Some [dune]) initial) = None \<and>
   find (\<lambda>b. Id' b = ''1'') (books (wiredBooks None (Some [dune]) initial)) =
     Some (spread dune False ''$15.00'') \<and>
   ''1'' \<in> favoriteBooks
      (fst (handleFavoriteToggle ''1'' plain_button (wiredBooks None (Some [dune]) initial))) \<and>
   toasts (fst (handleFavoriteToggle ''1'' plain_button
      (wiredBooks None (Some [dune]) initial))) =
     [ShowToastEvent ''Success'' ''Dune added to favorites'' ''success'',
      ShowToastEvent ''Error'' ''Recommendation service not initialized'' ''error''] \<and>
   agentCalls (fst (handleFavoriteToggle ''1'' plain_button
      (wiredBooks None (Some [dune]) initial))) = [] \<and>
   \<not> showRecommendations (fst (handleFavoriteToggle ''1'' plain_button
      (wiredBooks None (Some [dune]) initial)))"
proof -
  have s: "sessionInfo (wiredBooks None (Some [dune]) initial) = None"
    by (simp add: wiredBooks_def initial_def)
  have f: "find (\<lambda>b. Id' b = ''1'') (books (wiredBooks None (Some [dune]) initial)) =
     Some (spread dune False ''$15.00'')"
    by (simp add: wiredBooks_def fmt_15 dune_def spread_def)
  have n: "\<not> isFavorite (spread dune False ''$15.00'')"
    by (simp add: spread_fields)
  have t: "toasts (wiredBooks None (Some [dune]) initial) = []"
    "agentCalls (wiredBooks None (Some [dune]) initial) = []"
    "\<not> showRecommendations (wiredBooks None (Some [dune]) initial)"
    by (simp_all add: wiredBooks_def initial_def)
  have m: "Name (spread dune False ''$15.00'') = ''Dune''"
    by (simp add: spread_fields dune_def)
  show ?thesis
    using getRecommendations_without_session
      [where st = "wiredBooks None (Some [dune]) initial" and bookId = "''1''"
         and found = "spread dune False ''$15.00''" and btn = plain_button
         and book = "spread dune True ''$15.00''" and r = Rejected, OF s]
      s f n t m
    by simp
qed

text \<open>
  C10. Without session information \<^verbatim>\<open>getRecommendations\<close> returns before it writes to
  the component: the selected book name, the recommendation text, the visibility of the
  view and the loading flag are what they were, and so is every other field; only the
  toast has been dispatched.
\<close>

theorem no_session_leaves_state:
  assumes "sessionInfo st = None"
  shows "selectedBookName (getRecommendations book r st) = selectedBookName st \<and>
         recommendations (getRecommendations book r st) = recommendations st \<and>
         showRecommendations (getRecommendations book r st) = showRecommendations st \<and>
         isLoading (getRecommendations book r st) = isLoading st \<and>
         (getRecommendations book r st)\<lparr>toasts := toasts st\<rparr> = st \<and>
         getRecommendations_begin book st = getRecommendations book r st"
  using assms by (simp add: getRecommendations_None getRecommendations_begin_None)

theorem no_session_leaves_state_witness:
  "sessionInfo (initial\<lparr>isLoading := True, selectedBookName := ''Emma''\<rparr>) = None \<and>
   selectedBookName (getRecommendations (spread dune True ''$15.00'') (Resolved (Some ''x''))
      (initial\<lparr>isLoading := True, selectedBookName := ''Emma''\<rparr>)) = ''Emma'' \<and>
   isLoading (getRecommendations (spread dune True ''$15.00'') (Resolved (Some ''x''))
      (initial\<lparr>isLoading := True, selectedBookName := ''Emma''\<rparr>))"
proof -
  have s: "sessionInfo (initial\<lparr>isLoading := True, selectedBookName := ''Emma''\<rparr>) = None"
    by (simp add: initial_def)
  show ?thesis
    using no_session_leaves_state
      [where st = "initial\<lparr>isLoading := True, selectedBookName := ''Emma''\<rparr>"
         and book = "spread dune True ''$15.00''" and r = "Resolved (Some ''x'')", OF s] s
    by simp
qed

text \<open>
  C8, as the code has it. With session information, when the agent call of
  \<^verbatim>\<open>getRecommendations\<close> succeeds, the answer becomes the recommendation text, or the
  fixed placeholder when the answer is empty or \<^verbatim>\<open>null\<close>, and the view becomes visible,
  in whatever state the answer finds the component. The selected name is written before
  the call is awaited and is left alone when the answer arrives: it is the name of the
  book when nothing has rewritten it since, in particular when no other handler runs
  between the call and its answer. Then the answer \<^verbatim>\<open>Try Foundation\<close> gives the visible
  view with that text under the name of the book.
\<close>

theorem getRecommendations_success:
  assumes "sessionInfo st \<noteq> None"
  shows "(answer = Some reply \<and> reply \<noteq> [] \<longrightarrow>
            recommendations (getRecommendations book (Resolved answer) st) = reply) \<and>
         (answer = None \<or> answer = Some [] \<longrightarrow>
            recommendations (getRecommendations book (Resolved answer) st) =
              ''No recommendations available at this time.'') \<and>
         selectedBookName (getRecommendations book (Resolved answer) st) = Name book \<and>
         showRecommendations (getRecommendations book (Resolved answer) st) \<and>
         recommendations (getRecommendations book (Resolved (Some ''Try Foundation'')) st) =
           ''Try Foundation'' \<and>
         selectedBookName (getRecommendations_begin book st) = Name book \<and>
         recommendations (getRecommendations_resume (Resolved answer) st') =
           or_else answer ''No recommendations available at this time.'' \<and>
         showRecommendations (getRecommendations_resume (Resolved answer) st') \<and>
         selectedBookName (getRecommendations_resume (Resolved answer) st') =
           selectedBookName st' \<and>
         (selectedBookName st' = selectedBookName (getRecommendations_begin book st) \<longrightarrow>
            selectedBookName (getRecommendations_resume (Resolved answer) st') = Name book \<and>
            (answer = Some reply \<and> reply \<noteq> [] \<longrightarrow>
               recommendations (getRecommendations_resume (Resolved answer) st') = reply) \<and>
            (answer = None \<or> answer = Some [] \<longrightarrow>
               recommendations (getRecommendations_resume (Resolved answer) st') =
                 ''No recommendations available at this time.''))"
proof -
  obtain si where si: "sessionInfo st = Some si"
    using assms by auto
  have g: "getRecommendations book q st =
      getRecommendations_resume q (getRecommendations_begin book st)" for q
    using si by (simp add: getRecommendations_def)
  have res: "recommendations (getRecommendations_resume (Resolved a) s) =
       or_else a ''No recommendations available at this time.'' \<and>
     showRecommendations (getRecommendations_resume (Resolved a) s) \<and>
     selectedBookName (getRecommendations_resume (Resolved a) s) = selectedBookName s" for a s
    by (simp add: getRecommendations_resume_def)
  have sel: "selectedBookName (getRecommendations_begin book st) = Name book"
    by (simp add: getRecommendations_begin_Some [OF si])
  have o1: "or_else (Some t) d = t" if "t \<noteq> []" for t d
    using that by (simp add: or_else_def)
  have o2: "or_else None d = d" "or_else (Some []) d = d" for d
    by (simp_all add: or_else_def)
  show ?thesis
    using res sel o1 o2 by (auto simp: g)
qed

theorem getRecommendations_success_witness:
  "sessionInfo (initial\<lparr>sessionInfo := Some a_session\<rparr>) \<noteq> None \<and>
   recommendations (getRecommendations (spread dune True ''$15.00'')
      (Resolved (Some ''Try Foundation'')) (initial\<lparr>sessionInfo := Some a_session\<rparr>)) =
     ''Try Foundation'' \<and>
   selectedBookName (getRecommendations (spread dune True ''$15.00'')
      (Resolved (Some ''Try Foundation'')) (initial\<lparr>sessionInfo := Some a_session\<rparr>)) =
     ''Dune'' \<and>
   showRecommendations (getRecommendations (spread dune True ''$15.00'')
      (Resolved (Some ''Try Foundation'')) (initial\<lparr>sessionInfo := Some a_session\<rparr>)) \<and>
   selectedBookName (performSearch_begin (getRecommendations_begin (spread dune True ''$15.00'')
      (initial\<lparr>sessionInfo := Some a_session\<rparr>))) =
     selectedBookName (getRecommendations_begin (spread dune True ''$15.00'')
      (initial\<lparr>sessionInfo := Some a_session\<rparr>)) \<and>
   selectedBookName (getRecommendations_resume (Resolved (Some ''Try Foundation''))
      (performSearch_begin (getRecommendations_begin (spread dune True ''$15.00'')
         (initial\<lparr>sessionInfo := Some a_session\<rparr>)))) = ''Dune'' \<and>
   recommendations (getRecommendations_resume (Resolved (Some ''Try Foundation''))
      (performSearch_begin (getRecommendations_begin (spread dune True ''$15.00'')
         (initial\<lparr>sessionInfo := Some a_session\<rparr>)))) = ''Try Foundation''"
proof -
  have s: "sessionInfo (initial\<lparr>sessionInfo := Some a_session\<rparr>) \<noteq> None"
    by simp
  have m: "Name (spread dune True ''$15.00'') = ''Dune''"
    by (simp add: spread_fields dune_def)
  have k: "selectedBookName (performSearch_begin (getRecommendations_begin
        (spread dune True ''$15.00'') (initial\<lparr>sessionInfo := Some a_session\<rparr>))) =
      selectedBookName (getRecommendations_begin (spread dune True ''$15.00'')
        (initial\<lparr>sessionInfo := Some a_session\<rparr>))"
    by (simp add: performSearch_begin_def)
  show ?thesis
    using getRecommendations_success
      [where st = "initial\<lparr>sessionInfo := Some a_session\<rparr>"
         and book = "spread dune True ''$15.00''" and answer = "Some ''Try Foundation''"
         and reply = "''Try Foundation''"
         and st' = "performSearch_begin (getRecommendations_begin
           (spread dune True ''$15.00'') (initial\<lparr>sessionInfo := Some a_session\<rparr>))",
         OF s] m k
    by (simp add: or_else_def)
qed

text \<open>
  The specification gives the name of the favorited book as the selection for every
  successful agent call; that fails when another book is made a favorite while the call
  is pending. With a session and the books Dune and Emma loaded, the user makes Dune a
  favorite and then Emma, so that two agent calls are pending, the first for Dune. The
  answer for Dune arrives: the view is shown with that text under the name of Emma.
\<close>

theorem getRecommendations_success_counterexample:
  "agentCalls
     (fst (handleFavoriteToggle ''2'' plain_button
        (fst (handleFavoriteToggle ''1'' plain_button
           (wiredBooks None (Some [dune, emma])
              (connectedCallback (Resolved (Some a_session)) initial)))))) =
     [InvokeAgent ''token'' ''session''
        ''Find Recommended Books similar to Dune, language English and Genre SciFi'',
      InvokeAgent ''token'' ''session''
        ''Find Recommended Books similar to Emma, language English and Genre Novel''] \<and>
   showRecommendations
     (getRecommendations_resume (Resolved (Some ''Try Foundation''))
        (fst (handleFavoriteToggle ''2'' plain_button
           (fst (handleFavoriteToggle ''1'' plain_button
              (wiredBooks None (Some [dune, emma])
                 (connectedCallback (Resolved (Some a_session)) initial))))))) \<and>
   recommendations
     (getRecommendations_resume (Resolved (Some ''Try Foundation''))
        (fst (handleFavoriteToggle ''2'' plain_button
           (fst (handleFavoriteToggle ''1'' plain_button
              (wiredBooks None (Some [dune, emma])
                 (connectedCallback (Resolved (Some a_session)) initial))))))) =
     ''Try Foundation'' \<and>
   selectedBookName
     (getRecommendations_resume (Resolved (Some ''Try Foundation''))
        (fst (handleFavoriteToggle ''2'' plain_button
           (fst (handleFavoriteToggle ''1'' plain_button
              (wiredBooks None (Some [dune, emma])
                 (connectedCallback (Resolved (Some a_session)) initial))))))) = ''Emma'' \<and>
   ''Emma'' \<noteq> Name dune"
  by (simp add: connectedCallback_def wiredBooks_def handleFavoriteToggle_def
      getRecommendations_begin_def getRecommendations_resume_def showToast_def
      initial_def dune_def emma_def a_session_def spread_def or_else_def Let_def)

text \<open>
  C9, as the code has it. When the agent call fails, the error toast
  \<^verbatim>\<open>Failed to get book recommendations\<close> is dispatched and the visibility of the
  recommendation view stays what it was: the failure does not open the view, and it does
  not close a view that an earlier answer opened. The loading flag is cleared when the
  agent call has settled, whichever way.
\<close>

theorem getRecommendations_failure:
  "toasts (getRecommendations_resume Rejected st) =
     toasts st @ [ShowToastEvent ''Error'' ''Failed to get book recommendations'' ''error''] \<and>
   showRecommendations (getRecommendations_resume Rejected st) = showRecommendations st \<and>
   \<not> isLoading (getRecommendations_resume r st) \<and>
   (sessionInfo st \<noteq> None \<longrightarrow>
      toasts (getRecommendations book Rejected st) =
        toasts st @
        [ShowToastEvent ''Error'' ''Failed to get book recommendations'' ''error''] \<and>
      showRecommendations (getRecommendations book Rejected st) = showRecommendations st \<and>
      \<not> isLoading (getRecommendations book r st))"
proof -
  have a: "\<not> isLoading (getRecommendations_resume q s)" for q s
    by (cases q) (simp_all add: getRecommendations_resume_def showToast_def)
  have b: "toasts (getRecommendations_resume Rejected s) =
       toasts s @ [ShowToastEvent ''Error'' ''Failed to get book recommendations'' ''error''] \<and>
     showRecommendations (getRecommendations_resume Rejected s) = showRecommendations s" for s
    by (simp add: getRecommendations_resume_def showToast_def)
  have c: "toasts (getRecommendations book Rejected st) =
        toasts st @
        [ShowToastEvent ''Error'' ''Failed to get book recommendations'' ''error''] \<and>
      showRecommendations (getRecommendations book Rejected st) = showRecommendations st \<and>
      \<not> isLoading (getRecommendations book r st)"
    if h: "sessionInfo st \<noteq> None"
  proof -
    obtain si where si: "sessionInfo st = Some si"
      using h by auto
    have g: "getRecommendations book q st =
        getRecommendations_resume q (getRecommendations_begin book st)" for q
      using si by (simp add: getRecommendations_def)
    show ?thesis
      using a b [of "getRecommendations_begin book st"]
      by (simp add: g getRecommendations_begin_Some [OF si])
  qed
  from a b c show ?thesis by blast
qed

theorem getRecommendations_failure_witness:
  "sessionInfo (initial\<lparr>sessionInfo := Some a_session\<rparr>) \<noteq> None \<and>
   toasts (getRecommendations (spread dune True ''$15.00'') Rejected
      (initial\<lparr>sessionInfo := Some a_session\<rparr>)) =
     [ShowToastEvent ''Error'' ''Failed to get book recommendations'' ''error''] \<and>
   \<not> showRecommendations (getRecommendations (spread dune True ''$15.00'') Rejected
      (initial\<lparr>sessionInfo := Some a_session\<rparr>)) \<and>
   \<not> isLoading (getRecommendations (spread dune True ''$15.00'') Rejected
      (initial\<lparr>sessionInfo := Some a_session\<rparr>))"
  using getRecommendations_failure
    [where st = "initial\<lparr>sessionInfo := Some a_session\<rparr>"
       and book = "spread dune True ''$15.00''" and r = Rejected]
  by (simp add: initial_def)

text \<open>
  The specification says that after a failure the view is not shown; that fails when a
  view is open. With a session and the books Dune and
  Emma loaded, the user makes Dune a favorite and the agent answers; the view is open.
  The user makes Emma a favorite and this agent call fails: the view is still shown, now
  under the name of Emma with the text that was given for Dune.
\<close>

theorem getRecommendations_failure_counterexample:
  "showRecommendations
     (getRecommendations_resume Rejected
        (fst (handleFavoriteToggle ''2'' plain_button
           (getRecommendations_resume (Resolved (Some ''Try Foundation''))
              (fst (handleFavoriteToggle ''1'' plain_button
                 (wiredBooks None (Some [dune, emma])
                    (connectedCallback (Resolved (Some a_session)) initial)))))))) \<and>
   selectedBookName
     (getRecommendations_resume Rejected
        (fst (handleFavoriteToggle ''2'' plain_button
           (getRecommendations_resume (Resolved (Some ''Try Foundation''))
              (fst (handleFavoriteToggle ''1'' plain_button
                 (wiredBooks None (Some [dune, emma])
                    (connectedCallback (Resolved (Some a_session)) initial)))))))) = ''Emma'' \<and>
   recommendations
     (getRecommendations_resume Rejected
        (fst (handleFavoriteToggle ''2'' plain_button
           (getRecommendations_resume (Resolved (Some ''Try Foundation''))
              (fst (handleFavoriteToggle ''1'' plain_button
                 (wiredBooks None (Some [dune, emma])
                    (connectedCallback (Resolved (Some a_session)) initial)))))))) =
     ''Try Foundation''"
  by (simp add: connectedCallback_def wiredBooks_def handleFavoriteToggle_def
      getRecommendations_begin_def getRecommendations_resume_def showToast_def
      initial_def dune_def emma_def spread_def or_else_def Let_def)

section \<open>Toggling a favorite\<close>

lemma update_first_twice:
  "(\<And>x. P x \<Longrightarrow> P (f x)) \<Longrightarrow> (\<And>x. g (f x) = x) \<Longrightarrow>
   update_first P g (update_first P f xs) = xs"
  by (induction xs) auto

lemma find_Some_holds: "find P xs = Some x \<Longrightarrow> P x"
  by (auto simp: find_Some_iff)

lemma getRecommendations_begin_keeps:
  "books (getRecommendations_begin book st) = books st"
  "favoriteBooks (getRecommendations_begin book st) = favoriteBooks st"
  by (cases "sessionInfo st"; simp add: getRecommendations_begin_def showToast_def Let_def)+

lemma getRecommendations_resume_keeps:
  "books (getRecommendations_resume r st) = books st"
  "favoriteBooks (getRecommendations_resume r st) = favoriteBooks st"
  by (cases r; simp add: getRecommendations_resume_def showToast_def)+

text \<open>What one click does to the set, the list and the button, when the book is found.\<close>

lemma toggle_found:
  assumes "find (\<lambda>b. Id' b = bookId) (books st) = Some b"
  shows "favoriteBooks (fst (handleFavoriteToggle bookId btn st)) =
           (if isFavorite b then favoriteBooks st - {bookId}
            else insert bookId (favoriteBooks st))"
    and "books (fst (handleFavoriteToggle bookId btn st)) =
           update_first (\<lambda>b. Id' b = bookId) (\<lambda>b. b\<lparr>isFavorite := \<not> isFavorite b\<rparr>) (books st)"
    and "snd (handleFavoriteToggle bookId btn st) =
           (if isFavorite b then plain_button else favorite_button)"
  using assms
  by (simp_all add: handleFavoriteToggle_def Let_def getRecommendations_begin_keeps
      showToast_def plain_button_def favorite_button_def)

lemma toggle_found_again:
  assumes "find (\<lambda>b. Id' b = bookId) (books st) = Some b"
    and "books st' = books (fst (handleFavoriteToggle bookId btn st))"
  shows "find (\<lambda>b. Id' b = bookId) (books st') = Some (b\<lparr>isFavorite := \<not> isFavorite b\<rparr>)"
proof -
  have "Id' b = bookId"
    using assms(1) by (rule find_Some_holds)
  then have "find (\<lambda>b. Id' b = bookId)
      (update_first (\<lambda>b. Id' b = bookId) (\<lambda>b. b\<lparr>isFavorite := \<not> isFavorite b\<rparr>) (books st)) =
      Some (b\<lparr>isFavorite := \<not> isFavorite b\<rparr>)"
    using assms(1) by (intro find_update_first) simp_all
  then show ?thesis
    by (simp add: assms(2) toggle_found(2) [OF assms(1)])
qed

lemma toggle_twice_from:
  assumes f: "find (\<lambda>b. Id' b = bookId) (books st) = Some b"
    and agree: "isFavorite b = (bookId \<in> favoriteBooks st)"
    and mid: "books st' = books (fst (handleFavoriteToggle bookId btn st))"
      "favoriteBooks st' = favoriteBooks (fst (handleFavoriteToggle bookId btn st))"
  shows "favoriteBooks (fst (handleFavoriteToggle bookId btn' st')) = favoriteBooks st"
    and "books (fst (handleFavoriteToggle bookId btn' st')) = books st"
    and "snd (handleFavoriteToggle bookId btn' st') =
           (if isFavorite b then favorite_button else plain_button)"
proof -
  note f' = toggle_found_again [OF f mid(1)]
  show "favoriteBooks (fst (handleFavoriteToggle bookId btn' st')) = favoriteBooks st"
    using agree by (auto simp: toggle_found(1) [OF f'] mid(2) toggle_found(1) [OF f])
  have "update_first (\<lambda>b. Id' b = bookId) (\<lambda>b. b\<lparr>isFavorite := \<not> isFavorite b\<rparr>)
      (update_first (\<lambda>b. Id' b = bookId) (\<lambda>b. b\<lparr>isFavorite := \<not> isFavorite b\<rparr>) (books st)) =
      books st"
    by (rule update_first_twice) simp_all
  then show "books (fst (handleFavoriteToggle bookId btn' st')) = books st"
    by (simp add: toggle_found(2) [OF f'] mid(1) toggle_found(2) [OF f])
  show "snd (handleFavoriteToggle bookId btn' st') =
      (if isFavorite b then favorite_button else plain_button)"
    by (simp add: toggle_found(3) [OF f'])
qed

text \<open>
  C5, as the code has it. Take a book of the current list whose \<^verbatim>\<open>isFavorite\<close> flag
  agrees with the membership of its identifier in the favorite set, shown by a button
  with the look of that flag. Two clicks on it in succession, whether or not the agent
  call of the first click settles in between, leave the favorite set, the button (icon
  and variant) and the list of books as they were before the first click.
\<close>

theorem toggle_twice:
  assumes "find (\<lambda>b. Id' b = bookId) (books st) = Some b"
    and "isFavorite b = (bookId \<in> favoriteBooks st)"
    and "btn = (if isFavorite b then favorite_button else plain_button)"
  shows "favoriteBooks (fst (handleFavoriteToggle bookId
             (snd (handleFavoriteToggle bookId btn st))
             (fst (handleFavoriteToggle bookId btn st)))) = favoriteBooks st \<and>
         snd (handleFavoriteToggle bookId
             (snd (handleFavoriteToggle bookId btn st))
             (fst (handleFavoriteToggle bookId btn st))) = btn \<and>
         books (fst (handleFavoriteToggle bookId
             (snd (handleFavoriteToggle bookId btn st))
             (fst (handleFavoriteToggle bookId btn st)))) = books st \<and>
         favoriteBooks (fst (handleFavoriteToggle bookId
             (snd (handleFavoriteToggle bookId btn st))
             (getRecommendations_resume r (fst (handleFavoriteToggle bookId btn st))))) =
           favoriteBooks st \<and>
         snd (handleFavoriteToggle bookId
             (snd (handleFavoriteToggle bookId btn st))
             (getRecommendations_resume r (fst (handleFavoriteToggle bookId btn st)))) = btn \<and>
         books (fst (handleFavoriteToggle bookId
             (snd (handleFavoriteToggle bookId btn st))
             (getRecommendations_resume r (fst (handleFavoriteToggle bookId btn st))))) =
           books st"
proof -
  have direct:
    "favoriteBooks (fst (handleFavoriteToggle bookId q
        (fst (handleFavoriteToggle bookId btn st)))) = favoriteBooks st"
    "books (fst (handleFavoriteToggle bookId q
        (fst (handleFavoriteToggle bookId btn st)))) = books st"
    "snd (handleFavoriteToggle bookId q (fst (handleFavoriteToggle bookId btn st))) = btn"
    for q
    using toggle_twice_from [OF assms(1,2), of "fst (handleFavoriteToggle bookId btn st)" btn q]
      assms(3)
    by simp_all
  have settled:
    "favoriteBooks (fst (handleFavoriteToggle bookId q
        (getRecommendations_resume r (fst (handleFavoriteToggle bookId btn st))))) =
       favoriteBooks st"
    "books (fst (handleFavoriteToggle bookId q
        (getRecommendations_resume r (fst (handleFavoriteToggle bookId btn st))))) = books st"
    "snd (handleFavoriteToggle bookId q
        (getRecommendations_resume r (fst (handleFavoriteToggle bookId btn st)))) = btn"
    for q
    using toggle_twice_from [OF assms(1,2),
        of "getRecommendations_resume r (fst (handleFavoriteToggle bookId btn st))" btn q]
      assms(3)
    by (simp_all add: getRecommendations_resume_keeps)
  from direct settled show ?thesis by blast
qed

theorem toggle_twice_witness:
  "find (\<lambda>b. Id' b = ''1'') (books (wiredBooks None (Some [dune]) initial)) =
     Some (spread dune False ''$15.00'') \<and>
   isFavorite (spread dune False ''$15.00'') =
     (''1'' \<in> favoriteBooks (wiredBooks None (Some [dune]) initial)) \<and>
   plain_button =
     (if isFavorite (spread dune False ''$15.00'') then favorite_button else plain_button) \<and>
   favoriteBooks (fst (handleFavoriteToggle ''1''
       (snd (handleFavoriteToggle ''1'' plain_button (wiredBooks None (Some [dune]) initial)))
       (fst (handleFavoriteToggle ''1'' plain_button
          (wiredBooks None (Some [dune]) initial))))) = {} \<and>
   snd (handleFavoriteToggle ''1''
       (snd (handleFavoriteToggle ''1'' plain_button (wiredBooks None (Some [dune]) initial)))
       (fst (handleFavoriteToggle ''1'' plain_button
          (wiredBooks None (Some [dune]) initial)))) = plain_button"
proof -
  have f: "find (\<lambda>b. Id' b = ''1'') (books (wiredBooks None (Some [dune]) initial)) =
     Some (spread dune False ''$15.00'')"
    by (simp add: wiredBooks_def fmt_15 dune_def spread_def)
  have a: "isFavorite (spread dune False ''$15.00'') =
     (''1'' \<in> favoriteBooks (wiredBooks None (Some [dune]) initial))"
    by (simp add: spread_fields wiredBooks_def initial_def)
  have b: "plain_button =
     (if isFavorite (spread dune False ''$15.00'') then favorite_button else plain_button)"
    by (simp add: spread_fields)
  have e: "favoriteBooks (wiredBooks None (Some [dune]) initial) = {}"
    by (simp add: wiredBooks_def initial_def)
  show ?thesis
    using toggle_twice [OF f a b, of Rejected] f a b e by simp
qed

text \<open>
  The specification states this for every book of the list; that fails for a book whose
  flag the loader has reset. Dune is loaded and made a favorite (no session exists, so only the
  toasts follow); the wire service delivers the catalog again, which shows Dune as not a
  favorite while its identifier is still in the set. Two clicks on Dune, coming from the
  button the first click wrote to, then leave the set empty and the button plain: the
  identifier was in the set before, and the button had the favorite look.
\<close>

theorem toggle_twice_counterexample:
  "books (wiredBooks None (Some [dune])
      (fst (handleFavoriteToggle ''1'' plain_button
         (wiredBooks None (Some [dune]) initial)))) =
     [spread dune False ''$15.00''] \<and>
   favoriteBooks (wiredBooks None (Some [dune])
      (fst (handleFavoriteToggle ''1'' plain_button
         (wiredBooks None (Some [dune]) initial)))) = {''1''} \<and>
   favoriteBooks (fst (handleFavoriteToggle ''1''
      (snd (handleFavoriteToggle ''1'' favorite_button
         (wiredBooks None (Some [dune])
            (fst (handleFavoriteToggle ''1'' plain_button
               (wiredBooks None (Some [dune]) initial))))))
      (fst (handleFavoriteToggle ''1'' favorite_button
         (wiredBooks None (Some [dune])
            (fst (handleFavoriteToggle ''1'' plain_button
               (wiredBooks None (Some [dune]) initial)))))))) = {} \<and>
   snd (handleFavoriteToggle ''1'' plain_button (wiredBooks None (Some [dune]) initial)) =
     favorite_button \<and>
   snd (handleFavoriteToggle ''1''
      (snd (handleFavoriteToggle ''1'' favorite_button
         (wiredBooks None (Some [dune])
            (fst (handleFavoriteToggle ''1'' plain_button
               (wiredBooks None (Some [dune]) initial))))))
      (fst (handleFavoriteToggle ''1'' favorite_button
         (wiredBooks None (Some [dune])
            (fst (handleFavoriteToggle ''1'' plain_button
               (wiredBooks None (Some [dune]) initial))))))) = plain_button \<and>
   plain_button \<noteq> favorite_button"
  by (simp add: wiredBooks_def handleFavoriteToggle_def getRecommendations_begin_def
      showToast_def initial_def dune_def spread_def fmt_15 Let_def
      plain_button_def favorite_button_def)

section \<open>The debounced search\<close>

text \<open>
  Passing time and keystrokes, on a state with no pending search and on a state whose one
  pending search is the one the component keeps the handle of.
\<close>

lemma advance_idle:
  "timers st = [] \<Longrightarrow> advance t st = st\<lparr>now := max (now st) t\<rparr>"
  by (simp add: advance_def fire_due_def)

lemma advance_early:
  "timers st = [(h, d)] \<Longrightarrow> max (now st) t < d \<Longrightarrow> advance t st = st\<lparr>now := max (now st) t\<rparr>"
  by (auto simp: advance_def fire_due_def max_def split: if_splits)

lemma advance_due:
  "timers st = [(h, d)] \<Longrightarrow> d \<le> max (now st) t \<Longrightarrow>
   advance t st =
     performSearch_begin (st\<lparr>now := max (now st) t, timers := []\<rparr>)"
  by (auto simp: advance_def fire_due_def max_def split: if_splits)

lemma handleSearchChange_idle:
  "timers st = [] \<Longrightarrow>
   handleSearchChange v st =
     st\<lparr>searchTerm := v, timers := [(nextHandle st, now st + 300)],
        nextHandle := Suc (nextHandle st), delayTimeout := Some (nextHandle st)\<rparr>"
  by (cases "delayTimeout st")
    (simp_all add: handleSearchChange_def clearTimeout_def setTimeout_def Let_def)

lemma handleSearchChange_pending:
  "timers st = [(h, d)] \<Longrightarrow> delayTimeout st = Some h \<Longrightarrow>
   handleSearchChange v st =
     st\<lparr>searchTerm := v, timers := [(nextHandle st, now st + 300)],
        nextHandle := Suc (nextHandle st), delayTimeout := Some (nextHandle st)\<rparr>"
  by (simp add: handleSearchChange_def clearTimeout_def setTimeout_def Let_def)

text \<open>
  Keystrokes in the order of time on a state with the kept search pending: each keystroke
  replaces the pending search, after that search has started if it was due. The state is
  treated as if its text had been typed at its time.
\<close>

lemma type_at_pending:
  assumes "timers st = [(h, now st + 300)]" and "delayTimeout st = Some h"
    and "now st \<le> fst k"
  shows "timers (type_at k st) = [(nextHandle st, now (type_at k st) + 300)]"
    and "delayTimeout (type_at k st) = Some (nextHandle st)"
    and "now (type_at k st) = fst k"
    and "searchTerm (type_at k st) = snd k"
    and "searchCalls (type_at k st) =
           searchCalls st @ (if now st + 300 \<le> fst k then [searchTerm st] else [])"
proof -
  have m: "max (now st) (fst k) = fst k"
    using assms(3) by (simp add: max_def)
  have "timers (type_at k st) = [(nextHandle st, now (type_at k st) + 300)] \<and>
    delayTimeout (type_at k st) = Some (nextHandle st) \<and>
    now (type_at k st) = fst k \<and>
    searchTerm (type_at k st) = snd k \<and>
    searchCalls (type_at k st) =
      searchCalls st @ (if now st + 300 \<le> fst k then [searchTerm st] else [])"
  proof (cases "now st + 300 \<le> fst k")
    case True
    then have a: "advance (fst k) st =
        performSearch_begin (st\<lparr>now := fst k, timers := []\<rparr>)"
      using advance_due [OF assms(1), of "fst k"] by (simp add: m)
    have i: "timers (advance (fst k) st) = []"
      by (simp add: a performSearch_begin_def)
    show ?thesis
      using True
      unfolding type_at_def handleSearchChange_idle [OF i]
      by (simp add: a performSearch_begin_def)
  next
    case False
    then have a: "advance (fst k) st = st\<lparr>now := fst k\<rparr>"
      using advance_early [OF assms(1), of "fst k"] by (simp add: m)
    have p: "timers (advance (fst k) st) = [(h, now st + 300)]"
      "delayTimeout (advance (fst k) st) = Some h"
      by (simp_all add: a assms(1,2))
    show ?thesis
      using False
      unfolding type_at_def handleSearchChange_pending [OF p]
      by (simp add: a)
  qed
  then show "timers (type_at k st) = [(nextHandle st, now (type_at k st) + 300)]"
    and "delayTimeout (type_at k st) = Some (nextHandle st)"
    and "now (type_at k st) = fst k"
    and "searchTerm (type_at k st) = snd k"
    and "searchCalls (type_at k st) =
           searchCalls st @ (if now st + 300 \<le> fst k then [searchTerm st] else [])"
    by simp_all
qed

lemma typing_pending:
  assumes "timers st = [(h, now st + 300)]" and "delayTimeout st = Some h"
    and "in_order (now st) ks"
  shows "searchCalls (typing ks st) = searchCalls st @ fired ((now st, searchTerm st) # ks) \<and>
         (\<exists>h'. timers (typing ks st) = [(h', now (typing ks st) + 300)] \<and>
               delayTimeout (typing ks st) = Some h') \<and>
         now (typing ks st) = fst (last ((now st, searchTerm st) # ks)) \<and>
         searchTerm (typing ks st) = snd (last ((now st, searchTerm st) # ks))"
  using assms
proof (induction ks arbitrary: st h)
  case Nil
  then show ?case by simp
next
  case (Cons k ks)
  from Cons.prems(3) have k: "now st \<le> fst k" and rest: "in_order (fst k) ks"
    by simp_all
  note t = type_at_pending [OF Cons.prems(1,2) k]
  have r: "in_order (now (type_at k st)) ks"
    using rest by (simp add: t(3))
  have e: "(now (type_at k st), searchTerm (type_at k st)) = k"
    by (simp add: t(3,4))
  have "searchCalls (typing ks (type_at k st)) =
          searchCalls (type_at k st) @
          fired ((now (type_at k st), searchTerm (type_at k st)) # ks) \<and>
     (\<exists>h'. timers (typing ks (type_at k st)) = [(h', now (typing ks (type_at k st)) + 300)] \<and>
           delayTimeout (typing ks (type_at k st)) = Some h') \<and>
     now (typing ks (type_at k st)) =
       fst (last ((now (type_at k st), searchTerm (type_at k st)) # ks)) \<and>
     searchTerm (typing ks (type_at k st)) =
       snd (last ((now (type_at k st), searchTerm (type_at k st)) # ks))"
    by (rule Cons.IH [OF t(1) t(2) r])
  then show ?case
    unfolding e by (cases "ks = []") (auto simp: t)
qed

lemma within_window_in_order: "within_window p ks \<Longrightarrow> in_order p ks"
  by (induction ks arbitrary: p) simp_all

lemma within_window_fired: "within_window p ks \<Longrightarrow> fired ((p, v) # ks) = []"
proof (induction ks arbitrary: p v)
  case Nil
  then show ?case by simp
next
  case (Cons k ks)
  then have "fired (k # ks) = []"
    using Cons.IH [of "fst k" "snd k"] by simp
  with Cons.prems show ?case by simp
qed

text \<open>Typing from the idle state: the first keystroke schedules the first search.\<close>

lemma typing_idle:
  assumes "timers st = []" and "now st \<le> fst k" and "in_order (fst k) ks"
  shows "searchCalls (typing (k # ks) st) = searchCalls st @ fired (k # ks)"
    and "\<exists>h'. timers (typing (k # ks) st) = [(h', now (typing (k # ks) st) + 300)]"
    and "now (typing (k # ks) st) = fst (last (k # ks))"
    and "searchTerm (typing (k # ks) st) = snd (last (k # ks))"
proof -
  have a: "advance (fst k) st = st\<lparr>now := fst k\<rparr>"
    using advance_idle [OF assms(1), of "fst k"] assms(2) by (simp add: max_def)
  have t: "type_at k st =
      st\<lparr>now := fst k, searchTerm := snd k, timers := [(nextHandle st, fst k + 300)],
         nextHandle := Suc (nextHandle st), delayTimeout := Some (nextHandle st)\<rparr>"
    unfolding type_at_def a
    using handleSearchChange_idle [of "st\<lparr>now := fst k\<rparr>" "snd k"] assms(1)
    by simp
  have e: "(now (type_at k st), searchTerm (type_at k st)) = k"
    by (simp add: t)
  have "searchCalls (typing ks (type_at k st)) =
          searchCalls (type_at k st) @
          fired ((now (type_at k st), searchTerm (type_at k st)) # ks) \<and>
     (\<exists>h'. timers (typing ks (type_at k st)) = [(h', now (typing ks (type_at k st)) + 300)] \<and>
           delayTimeout (typing ks (type_at k st)) = Some h') \<and>
     now (typing ks (type_at k st)) =
       fst (last ((now (type_at k st), searchTerm (type_at k st)) # ks)) \<and>
     searchTerm (typing ks (type_at k st)) =
       snd (last ((now (type_at k st), searchTerm (type_at k st)) # ks))"
    by (rule typing_pending [of "type_at k st" "nextHandle st"]) (simp_all add: t assms(3))
  then have g: "searchCalls (typing ks (type_at k st)) = searchCalls (type_at k st) @ fired (k # ks) \<and>
     (\<exists>h'. timers (typing ks (type_at k st)) = [(h', now (typing ks (type_at k st)) + 300)]) \<and>
     now (typing ks (type_at k st)) = fst (last (k # ks)) \<and>
     searchTerm (typing ks (type_at k st)) = snd (last (k # ks))"
    unfolding e by blast
  have c: "searchCalls (type_at k st) = searchCalls st"
    by (simp add: t)
  show "searchCalls (typing (k # ks) st) = searchCalls st @ fired (k # ks)"
    and "\<exists>h'. timers (typing (k # ks) st) = [(h', now (typing (k # ks) st) + 300)]"
    and "now (typing (k # ks) st) = fst (last (k # ks))"
    and "searchTerm (typing (k # ks) st) = snd (last (k # ks))"
    using g c by (cases "ks = []"; auto simp: t)+
qed

text \<open>
  C4. The component is idle (no search is pending) and keystrokes arrive, each less
  than 300 ms after the one before. While they arrive no search is started and one
  search stays pending. It does not start before 300 ms have passed since the last
  keystroke; once they have passed, exactly one search has been started, with the text
  of the last keystroke, and no search is pending any more: the searches that the
  earlier keystrokes scheduled never start. For keystrokes \<open>js\<close> at any distances, in
  the order of time, the searches started are those of the keystrokes that no other
  keystroke followed within 300 ms, and at most one search is pending.
\<close>

theorem debounce_one_search:
  assumes "timers st = []" and "now st \<le> fst k" and "within_window (fst k) ks"
  shows "searchCalls (typing (k # ks) st) = searchCalls st \<and>
         length (timers (typing (k # ks) st)) = 1 \<and>
         (T < fst (last (k # ks)) + 300 \<longrightarrow>
            searchCalls (advance T (typing (k # ks) st)) = searchCalls st \<and>
            length (timers (advance T (typing (k # ks) st))) = 1) \<and>
         (fst (last (k # ks)) + 300 \<le> T \<longrightarrow>
            searchCalls (advance T (typing (k # ks) st)) =
              searchCalls st @ [snd (last (k # ks))] \<and>
            timers (advance T (typing (k # ks) st)) = []) \<and>
         (in_order (now st) js \<longrightarrow>
            searchCalls (typing js st) = searchCalls st @ fired js \<and>
            length (timers (typing js st)) \<le> 1 \<and>
            (js \<noteq> [] \<and> fst (last js) + 300 \<le> T \<longrightarrow>
               searchCalls (advance T (typing js st)) =
                 searchCalls st @ fired js @ [snd (last js)] \<and>
               timers (advance T (typing js st)) = []))"
proof -
  define s where "s = typing (k # ks) st"
  note io = within_window_in_order [OF assms(3)]
  note idle = typing_idle [OF assms(1,2) io]
  have calls: "searchCalls s = searchCalls st"
    using idle(1) within_window_fired [OF assms(3), of "snd k"] by (simp add: s_def)
  obtain h' where pending: "timers s = [(h', now s + 300)]"
    using idle(2) by (auto simp: s_def)
  have clock: "now s = fst (last (k # ks))" and final: "searchTerm s = snd (last (k # ks))"
    using idle(3,4) by (simp_all add: s_def)
  have early: "searchCalls (advance T s) = searchCalls st \<and> length (timers (advance T s)) = 1"
    if "T < fst (last (k # ks)) + 300"
    using advance_early [OF pending, of T] that calls pending clock
    by (simp add: max_def)
  have late: "searchCalls (advance T s) = searchCalls st @ [snd (last (k # ks))] \<and>
      timers (advance T s) = []"
    if "fst (last (k # ks)) + 300 \<le> T"
    using advance_due [OF pending, of T] that calls clock final
    by (simp add: max_def performSearch_begin_def)
  have general: "searchCalls (typing js st) = searchCalls st @ fired js \<and>
      length (timers (typing js st)) \<le> 1 \<and>
      (js \<noteq> [] \<and> fst (last js) + 300 \<le> T \<longrightarrow>
         searchCalls (advance T (typing js st)) =
           searchCalls st @ fired js @ [snd (last js)] \<and>
         timers (advance T (typing js st)) = [])"
    if o: "in_order (now st) js"
  proof (cases js)
    case Nil
    then show ?thesis by (simp add: assms(1))
  next
    case (Cons j js')
    from o have j: "now st \<le> fst j" "in_order (fst j) js'"
      by (simp_all add: Cons)
    note g = typing_idle [OF assms(1) j]
    obtain i where p: "timers (typing js st) = [(i, now (typing js st) + 300)]"
      using g(2) by (auto simp: Cons)
    have "searchCalls (advance T (typing js st)) =
           searchCalls st @ fired js @ [snd (last js)] \<and>
         timers (advance T (typing js st)) = []"
      if "fst (last js) + 300 \<le> T"
      using advance_due [OF p, of T] that g(1,3,4)
      by (simp add: max_def performSearch_begin_def Cons)
    then show ?thesis
      using g(1) p by (simp add: Cons)
  qed
  from calls pending early late general show ?thesis
    unfolding s_def [symmetric] by simp
qed

theorem debounce_one_search_witness:
  "timers initial = [] \<and> now initial \<le> fst (0, ''D'') \<and>
   within_window (fst (0, ''D'')) [(100, ''Du''), (250, ''Dun''), (400, ''Dune'')] \<and>
   searchCalls (typing [(0, ''D''), (100, ''Du''), (250, ''Dun''), (400, ''Dune'')] initial) = [] \<and>
   searchCalls (advance 700
      (typing [(0, ''D''), (100, ''Du''), (250, ''Dun''), (400, ''Dune'')] initial)) =
     [''Dune''] \<and>
   timers (advance 700
      (typing [(0, ''D''), (100, ''Du''), (250, ''Dun''), (400, ''Dune'')] initial)) = [] \<and>
   in_order (now initial) [(0, ''D''), (100, ''Du''), (500, ''Dune'')] \<and>
   searchCalls (advance 800 (typing [(0, ''D''), (100, ''Du''), (500, ''Dune'')] initial)) =
     [''Du'', ''Dune'']"
proof -
  have h: "timers initial = []" "now initial \<le> fst (0::nat, ''D'')"
    "within_window (fst (0::nat, ''D'')) [(100, ''Du''), (250, ''Dun''), (400, ''Dune'')]"
    by (simp_all add: initial_def)
  have c: "searchCalls initial = []"
    by (simp add: initial_def)
  have o: "in_order (now initial) [(0, ''D''), (100, ''Du''), (500, ''Dune'')]"
    by (simp add: initial_def)
  show ?thesis
    using debounce_one_search [OF h, of 700]
      debounce_one_search [OF h, of 800 "[(0, ''D''), (100, ''Du''), (500, ''Dune'')]"]
      h c o
    by simp
qed

end
